theory Spec2Isabelle
  imports Main
begin

section \<open>Values, errors and responses\<close>

text \<open>
  The handlers of \<^verbatim>\<open>app.py\<close> receive and return Python values: the JSON body of a
  request, the dictionaries built by \<^verbatim>\<open>to_dict\<close>, the statistics dictionary whose keys
  are years. A dictionary is an association list in insertion order; a lookup takes the
  first entry of a key. Floats are left out.
\<close>

datatype pyval =
    PNone
  | PBool bool
  | PInt int
  | PStr string
  | PList "pyval list"
  | PDict "(pyval \<times> pyval) list"

text \<open>
  An exception that leaves a handler. \<^verbatim>\<open>get_or_404\<close> aborts with NotFound; a missing
  key of the body is Python's KeyError, a subscript on a body that is no dictionary its
  TypeError; StoreError is a commit the schema of \<^verbatim>\<open>models.py\<close> refuses;
  FileNotFoundError is raised by \<^verbatim>\<open>send_file\<close> on a path that names no file.
\<close>

datatype error =
    NotFound
  | KeyError string
  | TypeError
  | StoreError
  | FileNotFoundError

text \<open>
  A response a handler returns: a JSON payload with its status code
  (\<^verbatim>\<open>return body, 400\<close>; 200 when the code gives none), or the file sent by
  \<^verbatim>\<open>send_file(path, as_attachment=True)\<close> with its download name and bytes.
\<close>

datatype response =
    JsonResponse nat pyval
  | FileResponse string string

type_synonym result = "error + response"

text \<open>
  The status code the client sees. The framework turns NotFound into 404 and every
  other exception that no handler catches into 500.
\<close>

fun http_status :: "result \<Rightarrow> nat" where
  "http_status (Inr (JsonResponse code _)) = code"
| "http_status (Inr (FileResponse _ _)) = 200"
| "http_status (Inl NotFound) = 404"
| "http_status (Inl _) = 500"

text \<open>
  Sequencing of steps that may raise: the first exception ends the handler, so the
  steps after it are not run.
\<close>

definition and_then :: "error + 'a \<Rightarrow> ('a \<Rightarrow> error + 'b) \<Rightarrow> error + 'b" where
  "and_then r f = (case r of Inl e \<Rightarrow> Inl e | Inr x \<Rightarrow> f x)"

section \<open>Strings\<close>

text \<open>Python's \<^verbatim>\<open>str(n)\<close> for a natural number, as used by the f-strings.\<close>

fun str_nat :: "nat \<Rightarrow> string" where
  "str_nat n =
     (if n < 10 then [char_of (48 + n)]
      else str_nat (n div 10) @ [char_of (48 + n mod 10)])"

declare str_nat.simps [simp del]

text \<open>\<^verbatim>\<open>s.zfill(k)\<close>: zeros on the left up to width \<open>k\<close>.\<close>

definition zfill :: "nat \<Rightarrow> string \<Rightarrow> string" where
  "zfill k s = replicate (k - length s) (CHR ''0'') @ s"

text \<open>\<^verbatim>\<open>str.lower\<close> on one character: the letters A to Z; every other byte is kept.\<close>

definition lower_char :: "char \<Rightarrow> char" where
  "lower_char c =
     (let n = (of_char c :: nat) in if 65 \<le> n \<and> n \<le> 90 then char_of (n + 32) else c)"

definition lower :: "string \<Rightarrow> string" where
  "lower s = map lower_char s"

text \<open>\<^verbatim>\<open>t.startswith(s)\<close>.\<close>

fun startswith :: "string \<Rightarrow> string \<Rightarrow> bool" where
  "startswith t [] = True"
| "startswith [] (c # s) = False"
| "startswith (d # t) (c # s) = (d = c \<and> startswith t s)"

text \<open>
  Modelled from the spec: the column operator \<^verbatim>\<open>contains\<close> of the record store (the
  module \<^verbatim>\<open>database\<close> that provides \<^verbatim>\<open>db\<close> is not among the sources). The spec
  says substring match; \<open>contains t s\<close> holds when \<open>s\<close> occurs in \<open>t\<close>. The wildcard
  characters and the collation of a LIKE comparison in the backing store are outside
  the model.
\<close>

fun contains :: "string \<Rightarrow> string \<Rightarrow> bool" where
  "contains [] s = (s = [])"
| "contains (d # t) s = (startswith (d # t) s \<or> contains t s)"

text \<open>\<^verbatim>\<open>filename.rsplit('.', 1)[1]\<close> when the name has a dot: the text after the last dot.\<close>

definition after_last_dot :: "string \<Rightarrow> string" where
  "after_last_dot s = rev (takeWhile (\<lambda>c. c \<noteq> CHR ''.'') (rev s))"

text \<open>\<^verbatim>\<open>os.path.join(a, b)\<close> for two components.\<close>

definition path_join :: "string \<Rightarrow> string \<Rightarrow> string" where
  "path_join a b =
     (if startswith b ''/'' then b
      else if a = [] \<or> last a = CHR ''/'' then a @ b
      else a @ ''/'' @ b)"

section \<open>Timestamps\<close>

record datetime =
  dt_year :: nat
  dt_month :: nat
  dt_day :: nat
  dt_hour :: nat
  dt_minute :: nat
  dt_second :: nat
  dt_microsecond :: nat

text \<open>\<^verbatim>\<open>datetime.isoformat()\<close>: the microseconds are printed only when not zero.\<close>

definition isoformat :: "datetime \<Rightarrow> string" where
  "isoformat d =
     zfill 4 (str_nat (dt_year d)) @ ''-'' @ zfill 2 (str_nat (dt_month d)) @ ''-'' @
     zfill 2 (str_nat (dt_day d)) @ ''T'' @ zfill 2 (str_nat (dt_hour d)) @ '':'' @
     zfill 2 (str_nat (dt_minute d)) @ '':'' @ zfill 2 (str_nat (dt_second d)) @
     (if dt_microsecond d = 0 then [] else ''.'' @ zfill 6 (str_nat (dt_microsecond d)))"

section \<open>The Work model\<close>

text \<open>
  The columns of \<^verbatim>\<open>models.py\<close>. A column declared \<^verbatim>\<open>nullable=False\<close> holds a value,
  every other column an option; \<open>approved\<close> is only ever written as False (its
  default) or True.
\<close>

record work =
  work_id :: nat
  title :: string
  abstract :: string
  author_name :: string
  author_email :: "string option"
  year :: int
  field :: string
  school :: "string option"
  region :: "string option"
  category :: "string option"
  pdf_filename :: "string option"
  approved :: bool
  gdpr_consent :: "bool option"
  created_at :: datetime
  updated_at :: datetime

text \<open>Python's truth value of a string that may be None: None and the empty string are false.\<close>

fun truthy :: "string option \<Rightarrow> bool" where
  "truthy None = False"
| "truthy (Some s) = (s \<noteq> [])"

fun py_str :: "string option \<Rightarrow> pyval" where
  "py_str None = PNone"
| "py_str (Some s) = PStr s"

definition pdf_url :: "work \<Rightarrow> pyval" where
  "pdf_url w =
     (if truthy (pdf_filename w) then PStr (''/api/works/'' @ str_nat (work_id w) @ ''/pdf'')
      else PNone)"

definition to_dict :: "work \<Rightarrow> (pyval \<times> pyval) list" where
  "to_dict w =
     [(PStr ''id'', PInt (int (work_id w))),
      (PStr ''title'', PStr (title w)),
      (PStr ''abstract'', PStr (abstract w)),
      (PStr ''author_name'', PStr (author_name w)),
      (PStr ''year'', PInt (year w)),
      (PStr ''field'', PStr (field w)),
      (PStr ''school'', py_str (school w)),
      (PStr ''region'', py_str (region w)),
      (PStr ''category'', py_str (category w)),
      (PStr ''pdf_url'', pdf_url w),
      (PStr ''approved'', PBool (approved w)),
      (PStr ''created_at'', PStr (isoformat (created_at w)))]"

section \<open>The record store and the file store\<close>

text \<open>
  The state the handlers share: the rows of the table \<^verbatim>\<open>works\<close> in insertion order,
  and the files of the upload folder as an association list from path to bytes, where
  the first entry of a path is the file (a later save of the same path goes in front).
  The categories are independent of the works and are left out.
\<close>

record state =
  works :: "work list"
  files :: "(string \<times> string) list"

definition UPLOAD_FOLDER :: string where
  "UPLOAD_FOLDER = ''static/pdfs''"

text \<open>\<^verbatim>\<open>Work.query.get(work_id)\<close>: the row with this primary key.\<close>

definition find_work :: "state \<Rightarrow> nat \<Rightarrow> work option" where
  "find_work st i = find (\<lambda>w. work_id w = i) (works st)"

text \<open>
  Committing a loaded row after assignments to its attributes: the store writes the row
  only when some column changed, and then \<^verbatim>\<open>onupdate\<close> sets \<open>updated_at\<close>.
\<close>

definition flush :: "datetime \<Rightarrow> work \<Rightarrow> work \<Rightarrow> work" where
  "flush now old new = (if new = old then old else new\<lparr>updated_at := now\<rparr>)"

fun update_row :: "nat \<Rightarrow> work \<Rightarrow> work list \<Rightarrow> work list" where
  "update_row i new [] = []"
| "update_row i new (w # ws) = (if work_id w = i then new # ws else w # update_row i new ws)"

definition commit_update :: "datetime \<Rightarrow> state \<Rightarrow> work \<Rightarrow> work \<Rightarrow> state" where
  "commit_update now st old new =
     st\<lparr>works := update_row (work_id old) (flush now old new) (works st)\<rparr>"

text \<open>The primary key of a new row: one more than the largest key in the table.\<close>

definition next_id :: "work list \<Rightarrow> nat" where
  "next_id ws = Suc (fold max (map work_id ws) 0)"

text \<open>\<^verbatim>\<open>file.save(path)\<close>.\<close>

definition save_file :: "string \<Rightarrow> string \<Rightarrow> state \<Rightarrow> state" where
  "save_file path bytes st = st\<lparr>files := (path, bytes) # files st\<rparr>"

text \<open>\<^verbatim>\<open>os.path.basename\<close>: the text after the last slash.\<close>

definition basename :: "string \<Rightarrow> string" where
  "basename p = rev (takeWhile (\<lambda>c. c \<noteq> CHR ''/'') (rev p))"

text \<open>
  \<^verbatim>\<open>send_file(path, as_attachment=True)\<close>: it opens the path without looking whether
  the file is there, so a path that names no file raises FileNotFoundError.
\<close>

definition send_file :: "state \<Rightarrow> string \<Rightarrow> result" where
  "send_file st path =
     (case map_of (files st) path of
        None \<Rightarrow> Inl FileNotFoundError
      | Some bytes \<Rightarrow> Inr (FileResponse (basename path) bytes))"

definition message :: "string \<Rightarrow> pyval" where
  "message m = PDict [(PStr ''message'', PStr m)]"

section \<open>Listing: \<^verbatim>\<open>WorkList.get\<close>\<close>

text \<open>
  \<^verbatim>\<open>request.args\<close> is the query string as an association list;
  \<^verbatim>\<open>request.args.get(k)\<close> is the first value of \<open>k\<close>, or None.
\<close>

type_synonym args = "(string \<times> string) list"

definition args_get :: "args \<Rightarrow> string \<Rightarrow> string option" where
  "args_get a k = map_of a k"

text \<open>
  \<^verbatim>\<open>if p: query = query.filter(cond)\<close>: a parameter that is absent or empty leaves
  the query as it is.
\<close>

definition filter_if :: "string option \<Rightarrow> (string \<Rightarrow> work \<Rightarrow> bool) \<Rightarrow> work list \<Rightarrow> work list" where
  "filter_if p cond query =
     (case p of None \<Rightarrow> query | Some s \<Rightarrow> if s = [] then query else filter (cond s) query)"

text \<open>A comparison with a column that is NULL is not true, so the row is left out.\<close>

fun col_eq :: "string option \<Rightarrow> string \<Rightarrow> bool" where
  "col_eq None s = False"
| "col_eq (Some t) s = (t = s)"

fun col_contains :: "string option \<Rightarrow> string \<Rightarrow> bool" where
  "col_contains None s = False"
| "col_contains (Some t) s = contains t s"

text \<open>
  The handler. The year is handed to the store as the text of the request:
  \<^verbatim>\<open>Work.year == year\<close> compares the integer column with a string, and what that
  comparison yields is the store's business, so it is the parameter \<open>year_eq\<close>.
\<close>

definition WorkList_get :: "(int \<Rightarrow> string \<Rightarrow> bool) \<Rightarrow> state \<Rightarrow> args \<Rightarrow> state \<times> result" where
  "WorkList_get year_eq st a =
     (let query = filter approved (works st);
          query = filter_if (args_get a ''search'')
                    (\<lambda>s w. contains (title w) s \<or> contains (abstract w) s \<or>
                           contains (author_name w) s \<or> contains (field w) s) query;
          query = filter_if (args_get a ''field'') (\<lambda>s w. field w = s) query;
          query = filter_if (args_get a ''year'') (\<lambda>s w. year_eq (year w) s) query;
          query = filter_if (args_get a ''school'') (\<lambda>s w. col_contains (school w) s) query;
          query = filter_if (args_get a ''region'') (\<lambda>s w. col_eq (region w) s) query;
          query = filter_if (args_get a ''category'') (\<lambda>s w. col_eq (category w) s) query
      in (st, Inr (JsonResponse 200 (PList (map (\<lambda>w. PDict (to_dict w)) query)))))"

text \<open>
  One store comparison, for running the handler: text that is a decimal integer literal
  equals that integer, any other text equals no integer (the default store of
  \<^verbatim>\<open>config.py\<close> converts numeric text before comparing and raises nothing).
\<close>

fun digits_val :: "string \<Rightarrow> nat \<Rightarrow> nat option" where
  "digits_val [] acc = Some acc"
| "digits_val (c # cs) acc =
     (let n = (of_char c :: nat) in
      if 48 \<le> n \<and> n \<le> 57 then digits_val cs (10 * acc + (n - 48)) else None)"

fun int_of_text :: "string \<Rightarrow> int option" where
  "int_of_text [] = None"
| "int_of_text (c # cs) =
     (if c = CHR ''-'' then (if cs = [] then None else map_option (\<lambda>n. - int n) (digits_val cs 0))
      else map_option int (digits_val (c # cs) 0))"

definition text_year_eq :: "int \<Rightarrow> string \<Rightarrow> bool" where
  "text_year_eq y s = (int_of_text s = Some y)"

section \<open>Creating a work: \<^verbatim>\<open>WorkList.post\<close>\<close>

text \<open>\<^verbatim>\<open>data[k]\<close> and \<^verbatim>\<open>data.get(k, default)\<close> on the dictionary of the body.\<close>

definition getitem :: "(pyval \<times> pyval) list \<Rightarrow> string \<Rightarrow> error + pyval" where
  "getitem d k = (case map_of d (PStr k) of None \<Rightarrow> Inl (KeyError k) | Some v \<Rightarrow> Inr v)"

definition dict_get :: "(pyval \<times> pyval) list \<Rightarrow> string \<Rightarrow> pyval \<Rightarrow> pyval" where
  "dict_get d k dflt = (case map_of d (PStr k) of None \<Rightarrow> dflt | Some v \<Rightarrow> v)"

text \<open>The keyword arguments of \<^verbatim>\<open>Work(...)\<close>, as the handler evaluates them.\<close>

record kwargs =
  kw_title :: pyval
  kw_abstract :: pyval
  kw_author_name :: pyval
  kw_author_email :: pyval
  kw_year :: pyval
  kw_field :: pyval
  kw_school :: pyval
  kw_region :: pyval
  kw_category :: pyval
  kw_gdpr_consent :: pyval

text \<open>
  The arguments are evaluated from left to right; the first subscript of a key that
  the body lacks raises KeyError, and \<^verbatim>\<open>get\<close> never raises.
\<close>

definition work_kwargs :: "(pyval \<times> pyval) list \<Rightarrow> error + kwargs" where
  "work_kwargs d =
     and_then (getitem d ''title'') (\<lambda>t.
     and_then (getitem d ''abstract'') (\<lambda>a.
     and_then (getitem d ''author_name'') (\<lambda>n.
     and_then (getitem d ''year'') (\<lambda>y.
     and_then (getitem d ''field'') (\<lambda>f.
       Inr \<lparr>kw_title = t, kw_abstract = a, kw_author_name = n,
            kw_author_email = dict_get d ''author_email'' PNone,
            kw_year = y, kw_field = f,
            kw_school = dict_get d ''school'' PNone,
            kw_region = dict_get d ''region'' PNone,
            kw_category = dict_get d ''category'' PNone,
            kw_gdpr_consent = dict_get d ''gdpr_consent'' (PBool False)\<rparr>)))))"

text \<open>
  What a column takes at commit, after the declarations of \<^verbatim>\<open>models.py\<close>: a value of
  the column's type, and None where the column is nullable. The model admits nothing
  else in a column: any other value, and None in a \<^verbatim>\<open>nullable=False\<close> column,
  fails the commit.
\<close>

fun col_string :: "pyval \<Rightarrow> error + string" where
  "col_string (PStr s) = Inr s"
| "col_string _ = Inl StoreError"

fun col_string_opt :: "pyval \<Rightarrow> error + string option" where
  "col_string_opt (PStr s) = Inr (Some s)"
| "col_string_opt PNone = Inr None"
| "col_string_opt _ = Inl StoreError"

fun col_integer :: "pyval \<Rightarrow> error + int" where
  "col_integer (PInt i) = Inr i"
| "col_integer _ = Inl StoreError"

fun col_boolean_opt :: "pyval \<Rightarrow> error + bool option" where
  "col_boolean_opt (PBool b) = Inr (Some b)"
| "col_boolean_opt PNone = Inr None"
| "col_boolean_opt _ = Inl StoreError"

text \<open>
  \<^verbatim>\<open>db.session.add(work); db.session.commit()\<close>: the row gets its key, the column
  defaults \<open>approved = False\<close> and the two timestamps; \<open>pdf_filename\<close>, which the
  constructor is not given, is NULL.
\<close>

definition insert_row :: "datetime \<Rightarrow> work list \<Rightarrow> kwargs \<Rightarrow> error + work" where
  "insert_row now ws kw =
     and_then (col_string (kw_title kw)) (\<lambda>t.
     and_then (col_string (kw_abstract kw)) (\<lambda>a.
     and_then (col_string (kw_author_name kw)) (\<lambda>n.
     and_then (col_string_opt (kw_author_email kw)) (\<lambda>m.
     and_then (col_integer (kw_year kw)) (\<lambda>y.
     and_then (col_string (kw_field kw)) (\<lambda>f.
     and_then (col_string_opt (kw_school kw)) (\<lambda>s.
     and_then (col_string_opt (kw_region kw)) (\<lambda>r.
     and_then (col_string_opt (kw_category kw)) (\<lambda>c.
     and_then (col_boolean_opt (kw_gdpr_consent kw)) (\<lambda>g.
       Inr \<lparr>work_id = next_id ws, title = t, abstract = a, author_name = n,
            author_email = m, year = y, field = f, school = s, region = r,
            category = c, pdf_filename = None, approved = False, gdpr_consent = g,
            created_at = now, updated_at = now\<rparr>))))))))))"

definition WorkList_post :: "datetime \<Rightarrow> state \<Rightarrow> pyval \<Rightarrow> state \<times> result" where
  "WorkList_post now st data =
     (case data of
        PDict d \<Rightarrow>
          (case work_kwargs d of
             Inl e \<Rightarrow> (st, Inl e)
           | Inr kw \<Rightarrow>
               (case insert_row now (works st) kw of
                  Inl e \<Rightarrow> (st, Inl e)
                | Inr w \<Rightarrow> (st\<lparr>works := works st @ [w]\<rparr>,
                            Inr (JsonResponse 201 (PDict (to_dict w))))))
      | _ \<Rightarrow> (st, Inl TypeError))"

section \<open>One work: detail, PDF download, anonymization, approval\<close>

definition WorkDetail_get :: "state \<Rightarrow> nat \<Rightarrow> state \<times> result" where
  "WorkDetail_get st i =
     (case find_work st i of
        None \<Rightarrow> (st, Inl NotFound)
      | Some w \<Rightarrow> (st, Inr (JsonResponse 200 (PDict (to_dict w)))))"

definition WorkPDF_get :: "state \<Rightarrow> nat \<Rightarrow> state \<times> result" where
  "WorkPDF_get st i =
     (case find_work st i of
        None \<Rightarrow> (st, Inl NotFound)
      | Some w \<Rightarrow>
          (case pdf_filename w of
             None \<Rightarrow> (st, Inr (JsonResponse 404 (message ''PDF not available'')))
           | Some name \<Rightarrow>
               if name = [] then (st, Inr (JsonResponse 404 (message ''PDF not available'')))
               else (st, send_file st (path_join UPLOAD_FOLDER name))))"

text \<open>The marker is the Czech word written in the source, in UTF-8.\<close>

definition ANONYMIZED :: string where
  "ANONYMIZED = ''Anonymizov'' @ [CHR 0xC3, CHR 0xA1] @ ''no''"

definition WorkGDPR_delete :: "datetime \<Rightarrow> state \<Rightarrow> nat \<Rightarrow> state \<times> result" where
  "WorkGDPR_delete now st i =
     (case find_work st i of
        None \<Rightarrow> (st, Inl NotFound)
      | Some w \<Rightarrow>
          (commit_update now st w (w\<lparr>author_name := ANONYMIZED, author_email := None\<rparr>),
           Inr (JsonResponse 200 (message ''Personal data removed''))))"

definition WorkApproval_post :: "datetime \<Rightarrow> state \<Rightarrow> nat \<Rightarrow> state \<times> result" where
  "WorkApproval_post now st i =
     (case find_work st i of
        None \<Rightarrow> (st, Inl NotFound)
      | Some w \<Rightarrow>
          (commit_update now st w (w\<lparr>approved := True\<rparr>),
           Inr (JsonResponse 200 (message ''Work approved''))))"

section \<open>Attaching a PDF: \<^verbatim>\<open>WorkPDFUpload.post\<close>\<close>

definition allowed_file :: "string \<Rightarrow> bool" where
  "allowed_file filename =
     (CHR ''.'' \<in> set filename \<and> lower (after_last_dot filename) \<in> set [''pdf''])"

text \<open>An uploaded file of \<^verbatim>\<open>request.files\<close>: the name the client gave and the bytes.\<close>

record upload =
  filename :: string
  stream :: string

text \<open>
  The handler. \<^verbatim>\<open>secure_filename\<close> belongs to the framework and is a parameter. An
  uploaded file is true in a condition when its name is not empty.
\<close>

definition WorkPDFUpload_post ::
  "(string \<Rightarrow> string) \<Rightarrow> datetime \<Rightarrow> state \<Rightarrow> nat \<Rightarrow> (string \<times> upload) list \<Rightarrow> state \<times> result" where
  "WorkPDFUpload_post secure_filename now st i request_files =
     (case find_work st i of
        None \<Rightarrow> (st, Inl NotFound)
      | Some w \<Rightarrow>
          (case map_of request_files ''pdf'' of
             None \<Rightarrow> (st, Inr (JsonResponse 400 (message ''No PDF file provided'')))
           | Some file \<Rightarrow>
               if filename file = [] then
                 (st, Inr (JsonResponse 400 (message ''No file selected'')))
               else if filename file \<noteq> [] \<and> allowed_file (filename file) then
                 (let name = secure_filename (''work_'' @ str_nat i @ ''_'' @ filename file);
                      filepath = path_join UPLOAD_FOLDER name;
                      st1 = save_file filepath (stream file) st
                  in (commit_update now st1 w (w\<lparr>pdf_filename := Some name\<rparr>),
                      Inr (JsonResponse 200 (message ''PDF uploaded successfully''))))
               else (st, Inr (JsonResponse 400 (message ''Invalid file type'')))))"

section \<open>Statistics and export\<close>

text \<open>
  \<^verbatim>\<open>query(col, count(id)).group_by(col).all()\<close>: one pair for each distinct value of
  the column, with the number of rows that have it.
\<close>

definition group_count :: "(work \<Rightarrow> 'k) \<Rightarrow> work list \<Rightarrow> ('k \<times> nat) list" where
  "group_count col ws =
     map (\<lambda>k. (k, length (filter (\<lambda>w. col w = k) ws))) (remdups (map col ws))"

definition Statistics_get :: "state \<Rightarrow> state \<times> result" where
  "Statistics_get st =
     (let total_works = length (works st);
          approved_works = length (filter approved (works st));
          years = group_count year (works st);
          fields = group_count field (works st)
      in (st, Inr (JsonResponse 200 (PDict
            [(PStr ''total_works'', PInt (int total_works)),
             (PStr ''approved_works'', PInt (int approved_works)),
             (PStr ''works_by_year'', PDict (map (\<lambda>(y, n). (PInt y, PInt (int n))) years)),
             (PStr ''works_by_field'', PDict (map (\<lambda>(f, n). (PStr f, PInt (int n))) fields))]))))"

definition ExportData_get :: "state \<Rightarrow> state \<times> result" where
  "ExportData_get st =
     (st, Inr (JsonResponse 200 (PList (map (\<lambda>w. PDict (to_dict w)) (works st)))))"

section \<open>The stores the handlers produce\<close>

text \<open>
  The table of works is written by four handlers only: \<^verbatim>\<open>WorkList.post\<close> adds a row,
  \<^verbatim>\<open>WorkPDFUpload.post\<close>, \<^verbatim>\<open>WorkGDPR.delete\<close> and \<^verbatim>\<open>WorkApproval.post\<close> change
  one; every other handler returns the store it was given. A store is reachable when
  these handlers produce it from the empty store, with any requests at any times. The
  upload folder is a directory of the machine, which other programs can change too,
  so the files of a reachable store may be replaced by any others.
\<close>

inductive reachable :: "(string \<Rightarrow> string) \<Rightarrow> state \<Rightarrow> bool"
  for secure_filename :: "string \<Rightarrow> string" where
  empty: "reachable secure_filename \<lparr>works = [], files = []\<rparr>"
| create: "reachable secure_filename st \<Longrightarrow>
     reachable secure_filename (fst (WorkList_post now st data))"
| upload: "reachable secure_filename st \<Longrightarrow>
     reachable secure_filename (fst (WorkPDFUpload_post secure_filename now st i request_files))"
| anonymize: "reachable secure_filename st \<Longrightarrow>
     reachable secure_filename (fst (WorkGDPR_delete now st i))"
| approve: "reachable secure_filename st \<Longrightarrow>
     reachable secure_filename (fst (WorkApproval_post now st i))"
| disk: "reachable secure_filename st \<Longrightarrow>
     reachable secure_filename (st\<lparr>files := fs\<rparr>)"

section \<open>What the specification says, in its own words\<close>

text \<open>
  The predicates of the specification that the handlers are compared with. They are
  stated, not computed: \<open>s\<close> is a substring of \<open>t\<close> when \<open>t\<close> is some text, then
  \<open>s\<close>, then some text.
\<close>

definition is_substring :: "string \<Rightarrow> string \<Rightarrow> bool" where
  "is_substring s t = (\<exists>p q. t = p @ s @ q)"

text \<open>
  A filter parameter is supplied with the value \<open>v\<close> when the query string has it and
  \<open>v\<close> is not empty.
\<close>

definition supplied :: "args \<Rightarrow> string \<Rightarrow> string \<Rightarrow> bool" where
  "supplied a k v = (args_get a k = Some v \<and> v \<noteq> [])"

text \<open>
  The works the public listing shows: approved, and matching every supplied filter.
  The search term matches in the title, the abstract, the author's name or the field.
\<close>

definition visible :: "(int \<Rightarrow> string \<Rightarrow> bool) \<Rightarrow> args \<Rightarrow> work \<Rightarrow> bool" where
  "visible year_eq a w =
     (approved w \<and>
      (\<forall>s. supplied a ''search'' s \<longrightarrow>
         is_substring s (title w) \<or> is_substring s (abstract w) \<or>
         is_substring s (author_name w) \<or> is_substring s (field w)) \<and>
      (\<forall>s. supplied a ''field'' s \<longrightarrow> field w = s) \<and>
      (\<forall>s. supplied a ''year'' s \<longrightarrow> year_eq (year w) s) \<and>
      (\<forall>s. supplied a ''school'' s \<longrightarrow> (\<exists>t. school w = Some t \<and> is_substring s t)) \<and>
      (\<forall>s. supplied a ''region'' s \<longrightarrow> region w = Some s) \<and>
      (\<forall>s. supplied a ''category'' s \<longrightarrow> category w = Some s))"

text \<open>A file name has the extension \<^verbatim>\<open>.pdf\<close>, in any mix of upper and lower case.\<close>

definition has_pdf_extension :: "string \<Rightarrow> bool" where
  "has_pdf_extension name = (\<exists>base ext. name = base @ ''.'' @ ext \<and> lower ext = ''pdf'')"

section \<open>Example data\<close>

definition ex_t0 :: datetime where
  "ex_t0 = \<lparr>dt_year = 2024, dt_month = 3, dt_day = 7, dt_hour = 9, dt_minute = 15,
            dt_second = 0, dt_microsecond = 0\<rparr>"

definition ex_t1 :: datetime where
  "ex_t1 = \<lparr>dt_year = 2024, dt_month = 4, dt_day = 21, dt_hour = 18, dt_minute = 2,
            dt_second = 44, dt_microsecond = 120\<rparr>"

definition ex_work1 :: work where
  "ex_work1 = \<lparr>work_id = 1, title = ''Lasers'', abstract = ''A study of photon traps'',
     author_name = ''Jana Nova'', author_email = Some ''jana@example.org'', year = 2023,
     field = ''Physics'', school = Some ''Gymnazium Brno'', region = Some ''JMK'',
     category = Some ''Fyzika'', pdf_filename = None, approved = True,
     gdpr_consent = Some True, created_at = ex_t0, updated_at = ex_t0\<rparr>"

definition ex_work2 :: work where
  "ex_work2 = \<lparr>work_id = 2, title = ''Acids'', abstract = ''Titration of photon-free samples'',
     author_name = ''Petr Maly'', author_email = None, year = 2023,
     field = ''Chemistry'', school = Some ''Gymnazium Praha'', region = None,
     category = None, pdf_filename = Some ''work_2_thesis.pdf'', approved = False,
     gdpr_consent = Some False, created_at = ex_t0, updated_at = ex_t0\<rparr>"

definition ex_work3 :: work where
  "ex_work3 = \<lparr>work_id = 3, title = ''Orbits'', abstract = ''Three bodies'',
     author_name = ''Eva Kratka'', author_email = None, year = 2024,
     field = ''Physics'', school = None, region = Some ''PHA'',
     category = Some ''Fyzika'', pdf_filename = None, approved = True,
     gdpr_consent = None, created_at = ex_t0, updated_at = ex_t0\<rparr>"

definition ex_state :: state where
  "ex_state = \<lparr>works = [ex_work1, ex_work2, ex_work3],
               files = [(''static/pdfs/work_2_thesis.pdf'', ''%PDF-1.4'')]\<rparr>"

text \<open>The same rows after the file of work 2 has gone from the upload folder.\<close>

definition ex_dangling :: state where
  "ex_dangling = \<lparr>works = [ex_work1, ex_work2, ex_work3], files = []\<rparr>"

text \<open>Bodies of create requests: complete, with extra keys, and without the year.\<close>

definition ex_body :: "(pyval \<times> pyval) list" where
  "ex_body = [(PStr ''title'', PStr ''Enzymes''), (PStr ''abstract'', PStr ''Kinetics''),
              (PStr ''author_name'', PStr ''Ivo Dlouhy''), (PStr ''year'', PInt 2025),
              (PStr ''field'', PStr ''Biology''), (PStr ''gdpr_consent'', PBool True)]"

definition ex_body_extra :: "(pyval \<times> pyval) list" where
  "ex_body_extra = ex_body @ [(PStr ''approved'', PBool True),
                              (PStr ''pdf_filename'', PStr ''evil.pdf'')]"

definition ex_body_no_year :: "(pyval \<times> pyval) list" where
  "ex_body_no_year = [(PStr ''title'', PStr ''Enzymes''), (PStr ''abstract'', PStr ''Kinetics''),
                      (PStr ''author_name'', PStr ''Ivo Dlouhy''), (PStr ''field'', PStr ''Biology'')]"

text \<open>The row that creating \<open>ex_body\<close> at time \<open>ex_t1\<close> adds to the example store.\<close>

definition ex_work4 :: work where
  "ex_work4 = \<lparr>work_id = 4, title = ''Enzymes'', abstract = ''Kinetics'',
     author_name = ''Ivo Dlouhy'', author_email = None, year = 2025,
     field = ''Biology'', school = None, region = None,
     category = None, pdf_filename = None, approved = False,
     gdpr_consent = Some True, created_at = ex_t1, updated_at = ex_t1\<rparr>"

text \<open>
  The store after one create request on the empty store, and after a PDF has then been
  attached to the new work, with the file names left as they are.
\<close>

definition ex_created :: state where
  "ex_created = fst (WorkList_post ex_t0 \<lparr>works = [], files = []\<rparr> (PDict ex_body))"

definition ex_attached :: state where
  "ex_attached =
     fst (WorkPDFUpload_post (\<lambda>s. s) ex_t1 ex_created 1
            [(''pdf'', \<lparr>filename = ''thesis.pdf'', stream = ''%PDF-1.7''\<rparr>)])"

section \<open>Facts about the store\<close>

lemma find_work_in:
  "i \<in> work_id ` set ws \<Longrightarrow>
     \<exists>w \<in> set ws. work_id w = i \<and> find (\<lambda>w. work_id w = i) ws = Some w"
  by (induction ws) auto

section \<open>The dictionary of a work\<close>

text \<open>
  The dictionary \<^verbatim>\<open>to_dict\<close> builds for a work has the keys id, title, abstract,
  author_name, year, field, school, region, category, pdf_url, approved and created_at,
  in this order; author_email, gdpr_consent and pdf_filename are not among them; and
  pdf_url is the download path of the work when the truth value of pdf_filename is
  true, and None otherwise.
\<close>

lemma to_dict_shape:
  "map fst (to_dict w) =
     [PStr ''id'', PStr ''title'', PStr ''abstract'', PStr ''author_name'', PStr ''year'',
      PStr ''field'', PStr ''school'', PStr ''region'', PStr ''category'', PStr ''pdf_url'',
      PStr ''approved'', PStr ''created_at''] \<and>
   PStr ''author_email'' \<notin> fst ` set (to_dict w) \<and>
   PStr ''gdpr_consent'' \<notin> fst ` set (to_dict w) \<and>
   PStr ''pdf_filename'' \<notin> fst ` set (to_dict w) \<and>
   map_of (to_dict w) (PStr ''pdf_url'') =
     Some (if pdf_filename w = None \<or> pdf_filename w = Some [] then PNone
           else PStr (''/api/works/'' @ str_nat (work_id w) @ ''/pdf''))"
  by (cases "pdf_filename w") (simp_all add: to_dict_def pdf_url_def)

section \<open>Facts about the listing\<close>

lemma startswith_iff: "startswith t s \<longleftrightarrow> (\<exists>q. t = s @ q)"
  by (induction t s rule: startswith.induct) auto

lemma contains_iff: "contains t s \<longleftrightarrow> is_substring s t"
proof (induction t)
  case Nil
  then show ?case by (auto simp: is_substring_def)
next
  case (Cons d t)
  have "is_substring s (d # t) \<longleftrightarrow> (\<exists>q. d # t = s @ q) \<or> is_substring s t"
    unfolding is_substring_def by (auto simp: Cons_eq_append_conv)
  then show ?case using Cons by (simp add: startswith_iff del: startswith.simps)
qed

lemma filter_if_eq:
  "filter_if p cond query = filter (\<lambda>w. \<forall>s. p = Some s \<and> s \<noteq> [] \<longrightarrow> cond s w) query"
  by (cases p) (auto simp: filter_if_def)

lemma col_contains_iff: "col_contains c s \<longleftrightarrow> (\<exists>t. c = Some t \<and> is_substring s t)"
  by (cases c) (simp_all add: contains_iff)

lemma col_eq_iff: "col_eq c s \<longleftrightarrow> c = Some s"
  by (cases c) auto

text \<open>
  The chain of conditional filters of the handler is one filter by the predicate of
  the specification.
\<close>

lemma WorkList_get_filter:
  "WorkList_get year_eq st a =
     (st, Inr (JsonResponse 200 (PList (map (\<lambda>w. PDict (to_dict w))
        (filter (visible year_eq a) (works st))))))"
proof -
  have "filter (visible year_eq a) (works st) =
    filter_if (args_get a ''category'') (\<lambda>s w. col_eq (category w) s)
     (filter_if (args_get a ''region'') (\<lambda>s w. col_eq (region w) s)
      (filter_if (args_get a ''school'') (\<lambda>s w. col_contains (school w) s)
       (filter_if (args_get a ''year'') (\<lambda>s w. year_eq (year w) s)
        (filter_if (args_get a ''field'') (\<lambda>s w. field w = s)
         (filter_if (args_get a ''search'')
            (\<lambda>s w. contains (title w) s \<or> contains (abstract w) s \<or>
                   contains (author_name w) s \<or> contains (field w) s)
            (filter approved (works st)))))))"
    unfolding filter_if_eq filter_filter
    by (rule filter_cong [OF refl])
       (auto simp: visible_def supplied_def contains_iff col_contains_iff col_eq_iff)
  then show ?thesis by (simp add: WorkList_get_def Let_def)
qed

section \<open>The public listing\<close>

text \<open>
  C1. For every store and every query string, \<^verbatim>\<open>GET /works\<close> answers with the
  representations of exactly the works that are approved and satisfy every supplied
  filter (a parameter counts as supplied when it is present and not empty), in the
  order of the store: the search term must be a substring of the title, the abstract,
  the author's name or the field; field, region and category must be equal, school
  must contain the term, and the year is compared by the store. The store is left as
  it was, and no work in the answer is unapproved.
\<close>

theorem WorkList_get_exactly_visible:
  "WorkList_get year_eq st a =
     (st, Inr (JsonResponse 200 (PList (map (\<lambda>w. PDict (to_dict w))
        (filter (visible year_eq a) (works st)))))) \<and>
   (\<forall>w \<in> set (filter (visible year_eq a) (works st)). approved w)"
proof
  show "WorkList_get year_eq st a =
     (st, Inr (JsonResponse 200 (PList (map (\<lambda>w. PDict (to_dict w))
        (filter (visible year_eq a) (works st))))))"
    by (rule WorkList_get_filter)
  show "\<forall>w \<in> set (filter (visible year_eq a) (works st)). approved w"
    by (simp add: visible_def)
qed

text \<open>
  The theorem at the example store, searching for ``photon'' in the field Physics:
  work 1 has the word in its abstract; work 2 has it too but is unapproved; work 3
  does not have it.
\<close>

theorem WorkList_get_exactly_visible_witness:
  "map (\<lambda>w. PDict (to_dict w))
     (filter (visible text_year_eq [(''search'', ''photon''), (''field'', ''Physics'')])
        (works ex_state)) = [PDict (to_dict ex_work1)] \<and>
   approved ex_work1 \<and> \<not> approved ex_work2"
proof -
  have e: "WorkList_get text_year_eq ex_state [(''search'', ''photon''), (''field'', ''Physics'')] =
      (ex_state, Inr (JsonResponse 200 (PList [PDict (to_dict ex_work1)])))"
    by code_simp
  have a: "approved ex_work1 \<and> \<not> approved ex_work2"
    by (simp add: ex_work1_def ex_work2_def)
  show ?thesis
    using WorkList_get_exactly_visible
      [of text_year_eq ex_state "[(''search'', ''photon''), (''field'', ''Physics'')]"] e a
    by simp
qed




section \<open>One work by its id\<close>

text \<open>
  C9. For every id that a work of the store has, \<^verbatim>\<open>GET /works/{id}\<close> answers with
  status 200 and the representation of a work with this id, and leaves the store as
  it was. Nothing is asked of the work's \<open>approved\<close> flag: an unapproved work is
  shown to whoever knows its id.
\<close>

theorem WorkDetail_get_any_approval:
  assumes "i \<in> work_id ` set (works st)"
  shows "\<exists>w \<in> set (works st). work_id w = i \<and>
           WorkDetail_get st i = (st, Inr (JsonResponse 200 (PDict (to_dict w))))"
  using find_work_in [OF assms] by (auto simp: WorkDetail_get_def find_work_def)

text \<open>The theorem at work 2 of the example store, which is not approved.\<close>

theorem WorkDetail_get_any_approval_witness:
  "2 \<in> work_id ` set (works ex_state) \<and> \<not> approved ex_work2 \<and>
   WorkDetail_get ex_state 2 = (ex_state, Inr (JsonResponse 200 (PDict (to_dict ex_work2))))"
proof -
  have h: "2 \<in> work_id ` set (works ex_state)"
    by (simp add: ex_state_def ex_work1_def ex_work2_def ex_work3_def)
  have a: "\<not> approved ex_work2"
    by (simp add: ex_work2_def)
  have i: "work_id ex_work1 \<noteq> 2 \<and> work_id ex_work2 = 2 \<and> work_id ex_work3 \<noteq> 2"
    by (simp add: ex_work1_def ex_work2_def ex_work3_def)
  show ?thesis
    using WorkDetail_get_any_approval [OF h] h a i by (auto simp: ex_state_def)
qed

section \<open>Statistics\<close>

lemma map_of_keyed:
  assumes "inj g"
  shows "map_of (map (\<lambda>k. (g k, h k)) ks) (g y) = (if y \<in> set ks then Some (h y) else None)"
  using assms by (induction ks) (auto simp: inj_def)

lemma group_count_lookup:
  assumes "inj g"
  shows "map_of (map (\<lambda>(k, n). (g k, PInt (int n))) (group_count col ws)) (g y) =
           (if y \<in> col ` set ws
            then Some (PInt (int (length (filter (\<lambda>w. col w = y) ws)))) else None)"
proof -
  have "map (\<lambda>(k, n). (g k, PInt (int n))) (group_count col ws) =
        map (\<lambda>k. (g k, PInt (int (length (filter (\<lambda>w. col w = k) ws))))) (remdups (map col ws))"
    by (simp add: group_count_def comp_def)
  then show ?thesis
    using map_of_keyed [OF assms, of "\<lambda>k. PInt (int (length (filter (\<lambda>w. col w = k) ws)))"
        "remdups (map col ws)" y]
    by simp
qed

lemma group_count_keys: "map fst (group_count col ws) = remdups (map col ws)"
  by (simp add: group_count_def comp_def)

lemma count_by_column:
  "length (filter (\<lambda>w. col w = k) ws) = length (filter (\<lambda>x. x = k) (map col ws))"
  by (induction ws) auto

text \<open>
  C8. The statistics are computed over all works, approved or not: the number of
  works, the number of approved works, a dictionary that has each year some work has
  as a key, once, with the number of works of that year, and no other key, and the
  same for the fields. For works with the years 2023, 2023 and 2024 the dictionary of
  years is \<open>{2023: 2, 2024: 1}\<close>. The store is left as it was.
\<close>

theorem Statistics_get_counts:
  "\<exists>ys fs.
     Statistics_get st =
       (st, Inr (JsonResponse 200 (PDict
          [(PStr ''total_works'', PInt (int (length (works st)))),
           (PStr ''approved_works'', PInt (int (length (filter approved (works st))))),
           (PStr ''works_by_year'', PDict ys),
           (PStr ''works_by_field'', PDict fs)]))) \<and>
     distinct (map fst ys) \<and> set (map fst ys) = PInt ` year ` set (works st) \<and>
     (\<forall>y. map_of ys (PInt y) =
        (if y \<in> year ` set (works st)
         then Some (PInt (int (length (filter (\<lambda>w. year w = y) (works st))))) else None)) \<and>
     distinct (map fst fs) \<and> set (map fst fs) = PStr ` field ` set (works st) \<and>
     (\<forall>f. map_of fs (PStr f) =
        (if f \<in> field ` set (works st)
         then Some (PInt (int (length (filter (\<lambda>w. field w = f) (works st))))) else None)) \<and>
     (map year (works st) = [2023, 2023, 2024] \<longrightarrow>
        ys = [(PInt 2023, PInt 2), (PInt 2024, PInt 1)])"
proof -
  let ?ys = "map (\<lambda>(y, n). (PInt y, PInt (int n))) (group_count year (works st))"
  let ?fs = "map (\<lambda>(f, n). (PStr f, PInt (int n))) (group_count field (works st))"
  have ky: "map fst ?ys = map PInt (remdups (map year (works st)))"
    by (simp add: group_count_def comp_def)
  have kf: "map fst ?fs = map PStr (remdups (map field (works st)))"
    by (simp add: group_count_def comp_def)
  have dy: "distinct (map fst ?ys)"
    unfolding ky by (simp add: distinct_map inj_on_def)
  have df: "distinct (map fst ?fs)"
    unfolding kf by (simp add: distinct_map inj_on_def)
  have sy: "set (map fst ?ys) = PInt ` year ` set (works st)"
    unfolding ky by simp
  have sf: "set (map fst ?fs) = PStr ` field ` set (works st)"
    unfolding kf by simp
  have ly: "\<forall>y. map_of ?ys (PInt y) =
        (if y \<in> year ` set (works st)
         then Some (PInt (int (length (filter (\<lambda>w. year w = y) (works st))))) else None)"
    using group_count_lookup [of PInt year "works st"] by (simp add: inj_def)
  have lf: "\<forall>f. map_of ?fs (PStr f) =
        (if f \<in> field ` set (works st)
         then Some (PInt (int (length (filter (\<lambda>w. field w = f) (works st))))) else None)"
    using group_count_lookup [of PStr field "works st"] by (simp add: inj_def)
  have ex: "map year (works st) = [2023, 2023, 2024] \<longrightarrow>
        ?ys = [(PInt 2023, PInt 2), (PInt 2024, PInt 1)]"
    by (simp add: group_count_def count_by_column [of year])
  have st: "Statistics_get st =
       (st, Inr (JsonResponse 200 (PDict
          [(PStr ''total_works'', PInt (int (length (works st)))),
           (PStr ''approved_works'', PInt (int (length (filter approved (works st))))),
           (PStr ''works_by_year'', PDict ?ys),
           (PStr ''works_by_field'', PDict ?fs)])))"
    by (simp add: Statistics_get_def Let_def)
  show ?thesis
    by (intro exI [of _ ?ys] exI [of _ ?fs] conjI) (rule st dy sy ly df sf lf ex)+
qed

text \<open>
  The theorem at the example store: three works, two of them approved, with the years
  2023, 2023 and 2024.
\<close>

theorem Statistics_get_counts_witness:
  "map year (works ex_state) = [2023, 2023, 2024] \<and>
   Statistics_get ex_state =
     (ex_state, Inr (JsonResponse 200 (PDict
        [(PStr ''total_works'', PInt 3),
         (PStr ''approved_works'', PInt 2),
         (PStr ''works_by_year'', PDict [(PInt 2023, PInt 2), (PInt 2024, PInt 1)]),
         (PStr ''works_by_field'', PDict [(PStr ''Chemistry'', PInt 1), (PStr ''Physics'', PInt 2)])])))"
proof -
  have h: "map year (works ex_state) = [2023, 2023, 2024]"
    by (simp add: ex_state_def ex_work1_def ex_work2_def ex_work3_def)
  have e: "Statistics_get ex_state =
     (ex_state, Inr (JsonResponse 200 (PDict
        [(PStr ''total_works'', PInt 3),
         (PStr ''approved_works'', PInt 2),
         (PStr ''works_by_year'', PDict [(PInt 2023, PInt 2), (PInt 2024, PInt 1)]),
         (PStr ''works_by_field'', PDict [(PStr ''Chemistry'', PInt 1), (PStr ''Physics'', PInt 2)])])))"
    by code_simp
  show ?thesis
    using Statistics_get_counts [of ex_state] h e by simp
qed

section \<open>Creating a work\<close>

lemma insert_row_defaults:
  assumes "insert_row now ws kw = Inr w"
  shows "\<not> approved w \<and> pdf_filename w = None \<and> work_id w = next_id ws"
  using assms
  by (auto simp: insert_row_def and_then_def split: sum.splits)

lemma WorkList_post_cases:
  "(\<exists>e. WorkList_post now st (PDict d) = (st, Inl e)) \<or>
   (\<exists>w. insert_row now (works st) (projr (work_kwargs d)) = Inr w \<and>
        WorkList_post now st (PDict d) =
          (st\<lparr>works := works st @ [w]\<rparr>, Inr (JsonResponse 201 (PDict (to_dict w)))))"
  by (auto simp: WorkList_post_def split: sum.splits)

text \<open>
  The handler reads the required keys with \<^verbatim>\<open>data['title']\<close> and so on, and checks
  nothing before. A body that lacks one of title, abstract, author_name, year and
  field raises the KeyError of a required key that the body lacks (the first in this
  order); no handler catches it, so the status is 500; the store is left as it was.
\<close>

lemma WorkList_post_missing_required:
  assumes "k \<in> set [''title'', ''abstract'', ''author_name'', ''year'', ''field'']"
    and "map_of d (PStr k) = None"
  shows "\<exists>k'. k' \<in> set [''title'', ''abstract'', ''author_name'', ''year'', ''field''] \<and>
           map_of d (PStr k') = None \<and>
           WorkList_post now st (PDict d) = (st, Inl (KeyError k')) \<and>
           http_status (snd (WorkList_post now st (PDict d))) = 500"
proof -
  have "\<exists>k'. k' \<in> set [''title'', ''abstract'', ''author_name'', ''year'', ''field''] \<and>
           map_of d (PStr k') = None \<and> work_kwargs d = Inl (KeyError k')"
    using assms
    by (auto simp: work_kwargs_def and_then_def getitem_def split: option.splits)
  then obtain k' where k: "k' \<in> set [''title'', ''abstract'', ''author_name'', ''year'', ''field'']"
      "map_of d (PStr k') = None" "work_kwargs d = Inl (KeyError k')"
    by blast
  have "WorkList_post now st (PDict d) = (st, Inl (KeyError k'))"
    using k(3) by (simp add: WorkList_post_def)
  then show ?thesis
    using k(1,2) by (intro exI [of _ k']) simp
qed

text \<open>
  C3. The body that has every required key but the year. The model of the request
  declares the year required, and a missing input is a validation error with the
  status 400; the handler answers with the KeyError of \<open>year\<close> and the status 500.
  No row is added.
\<close>

theorem WorkList_post_missing_year:
  "map_of ex_body_no_year (PStr ''year'') = None \<and>
   WorkList_post ex_t1 ex_state (PDict ex_body_no_year) = (ex_state, Inl (KeyError ''year'')) \<and>
   http_status (snd (WorkList_post ex_t1 ex_state (PDict ex_body_no_year))) = 500"
  by (simp add: WorkList_post_def work_kwargs_def and_then_def getitem_def ex_body_no_year_def)

text \<open>
  C10. Two create requests whose bodies agree on the ten keys the handler reads (they
  may differ in any other key, such as approved or pdf_filename) have the same outcome
  on the same store at the same time: the same answer and the same store after it.
  A request either leaves the store as it was, or adds exactly one row, and this row
  is not approved and has no PDF file name.
\<close>

theorem WorkList_post_ignores_other_keys:
  assumes "\<forall>k \<in> set [''title'', ''abstract'', ''author_name'', ''author_email'', ''year'',
                     ''field'', ''school'', ''region'', ''category'', ''gdpr_consent''].
             map_of d1 (PStr k) = map_of d2 (PStr k)"
  shows "WorkList_post now st (PDict d1) = WorkList_post now st (PDict d2) \<and>
         (fst (WorkList_post now st (PDict d1)) = st \<or>
          (\<exists>w. WorkList_post now st (PDict d1) =
                  (st\<lparr>works := works st @ [w]\<rparr>, Inr (JsonResponse 201 (PDict (to_dict w)))) \<and>
                \<not> approved w \<and> pdf_filename w = None))"
proof
  have "work_kwargs d1 = work_kwargs d2"
    using assms by (simp add: work_kwargs_def getitem_def dict_get_def)
  then show "WorkList_post now st (PDict d1) = WorkList_post now st (PDict d2)"
    by (simp add: WorkList_post_def)
  show "fst (WorkList_post now st (PDict d1)) = st \<or>
          (\<exists>w. WorkList_post now st (PDict d1) =
                  (st\<lparr>works := works st @ [w]\<rparr>, Inr (JsonResponse 201 (PDict (to_dict w)))) \<and>
                \<not> approved w \<and> pdf_filename w = None)"
    using WorkList_post_cases [of now st d1] insert_row_defaults by fastforce
qed

text \<open>
  The theorem at the example body and the same body with \<open>approved = True\<close> and a
  \<open>pdf_filename\<close> added: both create work 4, unapproved and without a file name.
\<close>

theorem WorkList_post_ignores_other_keys_witness:
  "WorkList_post ex_t1 ex_state (PDict ex_body_extra) =
     WorkList_post ex_t1 ex_state (PDict ex_body) \<and>
   map_of ex_body_extra (PStr ''approved'') = Some (PBool True) \<and>
   WorkList_post ex_t1 ex_state (PDict ex_body_extra) =
     (ex_state\<lparr>works := works ex_state @ [ex_work4]\<rparr>,
      Inr (JsonResponse 201 (PDict (to_dict ex_work4)))) \<and>
   \<not> approved ex_work4 \<and> pdf_filename ex_work4 = None"
proof -
  have h: "\<forall>k \<in> set [''title'', ''abstract'', ''author_name'', ''author_email'', ''year'',
                     ''field'', ''school'', ''region'', ''category'', ''gdpr_consent''].
             map_of ex_body_extra (PStr k) = map_of ex_body (PStr k)"
    by (simp add: ex_body_extra_def ex_body_def)
  have a: "map_of ex_body_extra (PStr ''approved'') = Some (PBool True)"
    by (simp add: ex_body_extra_def ex_body_def)
  have e: "WorkList_post ex_t1 ex_state (PDict ex_body) =
     (ex_state\<lparr>works := works ex_state @ [ex_work4]\<rparr>,
      Inr (JsonResponse 201 (PDict (to_dict ex_work4))))"
    by code_simp
  have w: "\<not> approved ex_work4 \<and> pdf_filename ex_work4 = None"
    by (simp add: ex_work4_def)
  show ?thesis
    using WorkList_post_ignores_other_keys [OF h, of ex_t1 ex_state] a e w by simp
qed

section \<open>Facts about rows and commits\<close>

lemma find_work_id:
  "find (\<lambda>x. work_id x = i) ws = Some w \<Longrightarrow> work_id w = i"
  by (induction ws) (auto split: if_splits)

lemma find_update_row:
  "find (\<lambda>x. work_id x = i) ws = Some w \<Longrightarrow> work_id new = i \<Longrightarrow>
     find (\<lambda>x. work_id x = i) (update_row i new ws) = Some new"
  by (induction ws) (auto split: if_splits)

lemma update_row_same:
  "find (\<lambda>x. work_id x = i) ws = Some w \<Longrightarrow> update_row i w ws = ws"
  by (induction ws) (auto split: if_splits)

lemma length_update_row: "length (update_row i new ws) = length ws"
  by (induction ws) auto

lemma nth_update_row_other:
  "k < length ws \<Longrightarrow> work_id (ws ! k) \<noteq> i \<Longrightarrow> update_row i new ws ! k = ws ! k"
proof (induction ws arbitrary: k)
  case Nil
  then show ?case by simp
next
  case (Cons w ws)
  then show ?case by (cases k) auto
qed

text \<open>
  What a commit does to the row: the assigned columns have their new values, every
  other column but \<open>updated_at\<close> is as before, and \<open>updated_at\<close> is the time of the
  commit when a column changed.
\<close>

lemma flush_work_id: "work_id new = work_id old \<Longrightarrow> work_id (flush now old new) = work_id old"
  by (simp add: flush_def)

lemma flush_columns:
  "updated_at new = updated_at old \<Longrightarrow>
     (flush now old new)\<lparr>updated_at := updated_at old\<rparr> = new"
  by (auto simp: flush_def)

lemma flush_updated_at:
  "updated_at (flush now old new) = (if new = old then updated_at old else now)"
  by (simp add: flush_def)

section \<open>Anonymization\<close>

text \<open>
  C5, as amended. For every work of the store, the anonymization sets author_name to
  the marker and author_email to NULL and leaves every other column of the work as it
  was, except \<open>updated_at\<close>, which becomes the time of the call when the name or the
  e-mail changed; every row with another id, and every file, is as before; and a
  second run, at any time, leaves the state the first run produced.
\<close>

theorem WorkGDPR_delete_frame:
  assumes "find_work st i = Some w"
  shows "\<exists>w'. find_work (fst (WorkGDPR_delete now st i)) i = Some w' \<and>
           author_name w' = ANONYMIZED \<and> author_email w' = None \<and>
           w'\<lparr>updated_at := updated_at w\<rparr> = w\<lparr>author_name := ANONYMIZED, author_email := None\<rparr> \<and>
           updated_at w' =
             (if author_name w = ANONYMIZED \<and> author_email w = None then updated_at w else now) \<and>
           length (works (fst (WorkGDPR_delete now st i))) = length (works st) \<and>
           (\<forall>k < length (works st). work_id (works st ! k) \<noteq> i \<longrightarrow>
              works (fst (WorkGDPR_delete now st i)) ! k = works st ! k) \<and>
           files (fst (WorkGDPR_delete now st i)) = files st \<and>
           (\<forall>now'. fst (WorkGDPR_delete now' (fst (WorkGDPR_delete now st i)) i) =
              fst (WorkGDPR_delete now st i))"
proof -
  let ?new = "w\<lparr>author_name := ANONYMIZED, author_email := None\<rparr>"
  let ?w' = "flush now w ?new"
  let ?st' = "fst (WorkGDPR_delete now st i)"
  have f: "find (\<lambda>x. work_id x = i) (works st) = Some w"
    using assms by (simp add: find_work_def)
  have id: "work_id w = i"
    using f by (rule find_work_id)
  have st': "?st' = st\<lparr>works := update_row i ?w' (works st)\<rparr>"
    using assms id by (simp add: WorkGDPR_delete_def commit_update_def)
  have idw': "work_id ?w' = i"
    using id by (simp add: flush_def)
  have found: "find_work ?st' i = Some ?w'"
    unfolding st' using find_update_row [OF f idw'] by (simp add: find_work_def)
  have cols: "?w'\<lparr>updated_at := updated_at w\<rparr> = ?new"
    by (rule flush_columns) simp
  have same: "?new = w \<longleftrightarrow> author_name w = ANONYMIZED \<and> author_email w = None"
  proof
    assume e: "?new = w"
    have "author_name w = author_name ?new" and "author_email w = author_email ?new"
      by (rule arg_cong [OF e [symmetric]])+
    then show "author_name w = ANONYMIZED \<and> author_email w = None"
      by simp
  next
    assume "author_name w = ANONYMIZED \<and> author_email w = None"
    then show "?new = w"
      by (cases w) auto
  qed
  have name: "author_name ?w' = ANONYMIZED \<and> author_email ?w' = None"
    using same by (simp add: flush_def)
  have upd: "updated_at ?w' =
      (if author_name w = ANONYMIZED \<and> author_email w = None then updated_at w else now)"
    using same by (simp add: flush_updated_at)
  have len: "length (works ?st') = length (works st)"
    unfolding st' by (simp add: length_update_row)
  have others: "\<forall>k < length (works st). work_id (works st ! k) \<noteq> i \<longrightarrow>
      works ?st' ! k = works st ! k"
    unfolding st' by (simp add: nth_update_row_other)
  have fs: "files ?st' = files st"
    unfolding st' by simp
  have again: "\<forall>now'. fst (WorkGDPR_delete now' ?st' i) = ?st'"
  proof
    fix now'
    have f': "find (\<lambda>x. work_id x = i) (works ?st') = Some ?w'"
      using found by (simp add: find_work_def)
    have fixed: "?w'\<lparr>author_name := ANONYMIZED, author_email := None\<rparr> = ?w'"
      using name by (cases ?w') auto
    have "fst (WorkGDPR_delete now' ?st' i) = ?st'\<lparr>works := update_row i ?w' (works ?st')\<rparr>"
      using found idw' fixed by (simp add: WorkGDPR_delete_def commit_update_def flush_def)
    then show "fst (WorkGDPR_delete now' ?st' i) = ?st'"
      using update_row_same [OF f'] by simp
  qed
  show ?thesis
    by (intro exI [of _ ?w'] conjI) (use found name cols upd len others fs again in blast)+
qed

text \<open>
  The theorem at work 1 of the example store, anonymized at time \<open>ex_t1\<close>: the name
  and the e-mail are gone, the flags and the other rows are as before, and
  \<open>updated_at\<close> is now \<open>ex_t1\<close>.
\<close>

theorem WorkGDPR_delete_frame_witness:
  "find_work ex_state 1 = Some ex_work1 \<and>
   find_work (fst (WorkGDPR_delete ex_t1 ex_state 1)) 1 =
     Some (ex_work1\<lparr>author_name := ANONYMIZED, author_email := None, updated_at := ex_t1\<rparr>) \<and>
   fst (WorkGDPR_delete ex_t0 (fst (WorkGDPR_delete ex_t1 ex_state 1)) 1) =
     fst (WorkGDPR_delete ex_t1 ex_state 1) \<and>
   files (fst (WorkGDPR_delete ex_t1 ex_state 1)) = files ex_state"
proof -
  have h: "find_work ex_state 1 = Some ex_work1"
    by (simp add: find_work_def ex_state_def ex_work1_def)
  have e: "find_work (fst (WorkGDPR_delete ex_t1 ex_state 1)) 1 =
     Some (ex_work1\<lparr>author_name := ANONYMIZED, author_email := None, updated_at := ex_t1\<rparr>)"
    by code_simp
  show ?thesis
    using WorkGDPR_delete_frame [OF h, of ex_t1] h e by auto
qed

text \<open>
  C5 as first stated fails: \<open>updated_at\<close> is a column of the work other than the name
  and the e-mail, and the anonymization of work 1 at time \<open>ex_t1\<close> changes it.
\<close>

theorem WorkGDPR_delete_updated_at_counterexample:
  "find_work ex_state 1 = Some ex_work1 \<and> updated_at ex_work1 = ex_t0 \<and>
   map_option updated_at (find_work (fst (WorkGDPR_delete ex_t1 ex_state 1)) 1) = Some ex_t1 \<and>
   ex_t1 \<noteq> ex_t0"
  by code_simp

section \<open>Attaching and fetching a PDF\<close>

lemma lower_char_dot_id: "lower_char (CHR ''.'') = CHR ''.''"
  by (simp add: lower_char_def Let_def)

lemma lower_char_dot: "lower_char c = CHR ''.'' \<longleftrightarrow> c = CHR ''.''"
proof
  assume l: "lower_char c = CHR ''.''"
  show "c = CHR ''.''"
  proof (cases "65 \<le> (of_char c :: nat) \<and> (of_char c :: nat) \<le> 90")
    case True
    then have "lower_char c = char_of (of_char c + 32 :: nat)"
      by (simp add: lower_char_def Let_def)
    then have "char_of (of_char c + 32 :: nat) = CHR ''.''"
      using l by simp
    then have "(of_char (char_of (of_char c + 32 :: nat)) :: nat) = of_char (CHR ''.'')"
      by (simp only:)
    then have m: "(of_char c + 32 :: nat) mod 256 = 46"
      by simp
    have "(of_char c + 32 :: nat) < 256"
      using True by simp
    then have "(of_char c + 32 :: nat) = 46"
      using m by simp
    then show ?thesis using True by simp
  next
    case False
    then show ?thesis using l by (auto simp: lower_char_def Let_def split: if_splits)
  qed
next
  assume "c = CHR ''.''"
  then show "lower_char c = CHR ''.''"
    by (simp add: lower_char_dot_id)
qed

lemma lower_pdf_no_dot:
  assumes "lower ext = ''pdf''"
  shows "CHR ''.'' \<notin> set ext"
proof
  assume "CHR ''.'' \<in> set ext"
  then have "lower_char (CHR ''.'') \<in> set (lower ext)"
    by (simp add: lower_def)
  then show False
    using assms by (simp add: lower_char_dot_id)
qed

lemma split_at_last_dot:
  assumes "CHR ''.'' \<in> set name"
  shows "\<exists>base. name = base @ ''.'' @ after_last_dot name"
proof -
  let ?P = "\<lambda>c. c \<noteq> CHR ''.''"
  have "dropWhile ?P (rev name) \<noteq> []"
    using assms by (simp add: dropWhile_eq_Nil_conv)
  then obtain rest where d: "dropWhile ?P (rev name) = CHR ''.'' # rest"
    using hd_dropWhile [of ?P "rev name"] by (cases "dropWhile ?P (rev name)") auto
  have "rev name = takeWhile ?P (rev name) @ CHR ''.'' # rest"
    using takeWhile_dropWhile_id [of ?P "rev name"] d by simp
  then have "rev (rev name) = rev (takeWhile ?P (rev name) @ CHR ''.'' # rest)"
    by simp
  then have "name = rev rest @ ''.'' @ after_last_dot name"
    by (simp add: after_last_dot_def)
  then show ?thesis by blast
qed

lemma after_last_dot_append:
  assumes "CHR ''.'' \<notin> set ext"
  shows "after_last_dot (base @ ''.'' @ ext) = ext"
proof -
  have "takeWhile (\<lambda>c. c \<noteq> CHR ''.'') (rev ext @ CHR ''.'' # rev base) =
        rev ext @ takeWhile (\<lambda>c. c \<noteq> CHR ''.'') (CHR ''.'' # rev base)"
    by (rule takeWhile_append2) (use assms in auto)
  then have "takeWhile (\<lambda>c. c \<noteq> CHR ''.'') (rev ext @ CHR ''.'' # rev base) = rev ext"
    by simp
  then show ?thesis by (simp add: after_last_dot_def)
qed

text \<open>
  \<^verbatim>\<open>allowed_file\<close> accepts the names with the extension \<^verbatim>\<open>.pdf\<close> in any case, and
  no others.
\<close>

lemma allowed_file_iff: "allowed_file name \<longleftrightarrow> has_pdf_extension name"
proof
  assume "allowed_file name"
  then have d: "CHR ''.'' \<in> set name" and l: "lower (after_last_dot name) = ''pdf''"
    by (simp_all add: allowed_file_def)
  from split_at_last_dot [OF d] l show "has_pdf_extension name"
    unfolding has_pdf_extension_def by blast
next
  assume "has_pdf_extension name"
  then obtain base ext where n: "name = base @ ''.'' @ ext" and l: "lower ext = ''pdf''"
    unfolding has_pdf_extension_def by blast
  have "after_last_dot name = ext"
    unfolding n by (rule after_last_dot_append [OF lower_pdf_no_dot [OF l]])
  then show "allowed_file name"
    using l n by (simp add: allowed_file_def)
qed

text \<open>
  C4. On an existing work, an upload with no \<open>pdf\<close> part, with an empty file name, or
  with a file name whose extension is not \<open>.pdf\<close> (in any case) is answered with the
  status 400 and leaves the store and the files as they were. Every other upload
  writes the bytes under the name made of the work's id and the file name, records
  this name on the work, leaves every other column of the work (but \<open>updated_at\<close>) and
  every other row as it was, and is answered with the status 200.
\<close>

theorem WorkPDFUpload_post_validation:
  assumes "find_work st i = Some w"
  shows "((map_of request_files ''pdf'' = None \<or>
           (\<exists>f. map_of request_files ''pdf'' = Some f \<and>
                (filename f = [] \<or> \<not> has_pdf_extension (filename f)))) \<longrightarrow>
          fst (WorkPDFUpload_post secure now st i request_files) = st \<and>
          http_status (snd (WorkPDFUpload_post secure now st i request_files)) = 400) \<and>
         (\<forall>f. map_of request_files ''pdf'' = Some f \<and> filename f \<noteq> [] \<and>
              has_pdf_extension (filename f) \<longrightarrow>
            files (fst (WorkPDFUpload_post secure now st i request_files)) =
              (path_join UPLOAD_FOLDER (secure (''work_'' @ str_nat i @ ''_'' @ filename f)),
               stream f) # files st \<and>
            (\<exists>w'. find_work (fst (WorkPDFUpload_post secure now st i request_files)) i = Some w' \<and>
               pdf_filename w' = Some (secure (''work_'' @ str_nat i @ ''_'' @ filename f)) \<and>
               w'\<lparr>updated_at := updated_at w\<rparr> =
                 w\<lparr>pdf_filename := Some (secure (''work_'' @ str_nat i @ ''_'' @ filename f))\<rparr>) \<and>
            length (works (fst (WorkPDFUpload_post secure now st i request_files))) =
              length (works st) \<and>
            (\<forall>k < length (works st). work_id (works st ! k) \<noteq> i \<longrightarrow>
               works (fst (WorkPDFUpload_post secure now st i request_files)) ! k = works st ! k) \<and>
            http_status (snd (WorkPDFUpload_post secure now st i request_files)) = 200)"
proof (intro conjI impI allI)
  assume "map_of request_files ''pdf'' = None \<or>
          (\<exists>f. map_of request_files ''pdf'' = Some f \<and>
               (filename f = [] \<or> \<not> has_pdf_extension (filename f)))"
  then show "fst (WorkPDFUpload_post secure now st i request_files) = st"
    using assms by (auto simp: WorkPDFUpload_post_def allowed_file_iff)
next
  assume "map_of request_files ''pdf'' = None \<or>
          (\<exists>f. map_of request_files ''pdf'' = Some f \<and>
               (filename f = [] \<or> \<not> has_pdf_extension (filename f)))"
  then show "http_status (snd (WorkPDFUpload_post secure now st i request_files)) = 400"
    using assms by (auto simp: WorkPDFUpload_post_def allowed_file_iff)
next
  fix f
  assume a: "map_of request_files ''pdf'' = Some f \<and> filename f \<noteq> [] \<and>
             has_pdf_extension (filename f)"
  let ?name = "secure (''work_'' @ str_nat i @ ''_'' @ filename f)"
  let ?new = "w\<lparr>pdf_filename := Some ?name\<rparr>"
  let ?w' = "flush now w ?new"
  let ?r = "WorkPDFUpload_post secure now st i request_files"
  have fw: "find (\<lambda>x. work_id x = i) (works st) = Some w"
    using assms by (simp add: find_work_def)
  have id: "work_id w = i"
    using fw by (rule find_work_id)
  have r: "?r = (st\<lparr>works := update_row i ?w' (works st),
                     files := (path_join UPLOAD_FOLDER ?name, stream f) # files st\<rparr>,
                 Inr (JsonResponse 200 (message ''PDF uploaded successfully'')))"
    using assms a id
    by (simp add: WorkPDFUpload_post_def allowed_file_iff commit_update_def save_file_def Let_def)
  have idw': "work_id ?w' = i"
    using id by (simp add: flush_def)
  have found: "find_work (fst ?r) i = Some ?w'"
    unfolding r using find_update_row [OF fw idw'] by (simp add: find_work_def)
  have cols: "?w'\<lparr>updated_at := updated_at w\<rparr> = ?new"
    by (rule flush_columns) simp
  have "pdf_filename (?w'\<lparr>updated_at := updated_at w\<rparr>) = pdf_filename ?new"
    by (rule arg_cong [OF cols])
  then have name: "pdf_filename ?w' = Some ?name"
    by simp
  show "files (fst ?r) = (path_join UPLOAD_FOLDER ?name, stream f) # files st"
    unfolding r by simp
  show "\<exists>w'. find_work (fst ?r) i = Some w' \<and> pdf_filename w' = Some ?name \<and>
          w'\<lparr>updated_at := updated_at w\<rparr> = ?new"
    using found name cols by blast
  show "length (works (fst ?r)) = length (works st)"
    unfolding r by (simp add: length_update_row)
  show "http_status (snd ?r) = 200"
    unfolding r by simp
  fix k
  assume "k < length (works st)" and "work_id (works st ! k) \<noteq> i"
  then show "works (fst ?r) ! k = works st ! k"
    unfolding r by (simp add: nth_update_row_other)
qed

text \<open>
  The theorem at work 1 of the example store, with the file names left as they are:
  \<open>thesis.PDF\<close> is stored and recorded, \<open>notes.txt\<close> and a request with no file are
  refused and change nothing.
\<close>

theorem WorkPDFUpload_post_validation_witness:
  "find_work ex_state 1 = Some ex_work1 \<and>
   files (fst (WorkPDFUpload_post (\<lambda>s. s) ex_t1 ex_state 1
            [(''pdf'', \<lparr>filename = ''thesis.PDF'', stream = ''%PDF-1.7''\<rparr>)])) =
     (''static/pdfs/work_1_thesis.PDF'', ''%PDF-1.7'') # files ex_state \<and>
   http_status (snd (WorkPDFUpload_post (\<lambda>s. s) ex_t1 ex_state 1
            [(''pdf'', \<lparr>filename = ''thesis.PDF'', stream = ''%PDF-1.7''\<rparr>)])) = 200 \<and>
   fst (WorkPDFUpload_post (\<lambda>s. s) ex_t1 ex_state 1
            [(''pdf'', \<lparr>filename = ''notes.txt'', stream = ''hello''\<rparr>)]) = ex_state \<and>
   http_status (snd (WorkPDFUpload_post (\<lambda>s. s) ex_t1 ex_state 1
            [(''pdf'', \<lparr>filename = ''notes.txt'', stream = ''hello''\<rparr>)])) = 400 \<and>
   fst (WorkPDFUpload_post (\<lambda>s. s) ex_t1 ex_state 1 []) = ex_state \<and>
   http_status (snd (WorkPDFUpload_post (\<lambda>s. s) ex_t1 ex_state 1 [])) = 400"
proof -
  have h: "find_work ex_state 1 = Some ex_work1"
    by (simp add: find_work_def ex_state_def ex_work1_def)
  have "allowed_file ''thesis.PDF''"
    by code_simp
  then have p: "has_pdf_extension ''thesis.PDF''"
    by (simp add: allowed_file_iff)
  have "\<not> allowed_file ''notes.txt''"
    by code_simp
  then have t: "\<not> has_pdf_extension ''notes.txt''"
    by (simp add: allowed_file_iff)
  have n: "path_join UPLOAD_FOLDER (''work_'' @ str_nat 1 @ ''_'' @ ''thesis.PDF'') =
           ''static/pdfs/work_1_thesis.PDF''"
    by code_simp
  have a: "files (fst (WorkPDFUpload_post (\<lambda>s. s) ex_t1 ex_state 1
            [(''pdf'', \<lparr>filename = ''thesis.PDF'', stream = ''%PDF-1.7''\<rparr>)])) =
     (''static/pdfs/work_1_thesis.PDF'', ''%PDF-1.7'') # files ex_state \<and>
   http_status (snd (WorkPDFUpload_post (\<lambda>s. s) ex_t1 ex_state 1
            [(''pdf'', \<lparr>filename = ''thesis.PDF'', stream = ''%PDF-1.7''\<rparr>)])) = 200"
    using WorkPDFUpload_post_validation [OF h, of
        "[(''pdf'', \<lparr>filename = ''thesis.PDF'', stream = ''%PDF-1.7''\<rparr>)]" "\<lambda>s. s" ex_t1] p n
    by simp
  have b: "fst (WorkPDFUpload_post (\<lambda>s. s) ex_t1 ex_state 1
            [(''pdf'', \<lparr>filename = ''notes.txt'', stream = ''hello''\<rparr>)]) = ex_state \<and>
   http_status (snd (WorkPDFUpload_post (\<lambda>s. s) ex_t1 ex_state 1
            [(''pdf'', \<lparr>filename = ''notes.txt'', stream = ''hello''\<rparr>)])) = 400"
    using WorkPDFUpload_post_validation [OF h, of
        "[(''pdf'', \<lparr>filename = ''notes.txt'', stream = ''hello''\<rparr>)]" "\<lambda>s. s" ex_t1] t
    by simp
  have c: "fst (WorkPDFUpload_post (\<lambda>s. s) ex_t1 ex_state 1 []) = ex_state \<and>
   http_status (snd (WorkPDFUpload_post (\<lambda>s. s) ex_t1 ex_state 1 [])) = 400"
    using WorkPDFUpload_post_validation [OF h, of "[]" "\<lambda>s. s" ex_t1]
    by simp
  show ?thesis
    using h a b c by blast
qed

text \<open>
  C6. A work that names a PDF which is not among the files: \<^verbatim>\<open>send_file\<close> raises
  FileNotFoundError, which no handler catches, so the answer has the status 500. The
  route documents 404 for a PDF that is not found, and answers 404 when the work names
  no PDF at all.
\<close>

theorem WorkPDF_get_missing_file:
  "find_work ex_dangling 2 = Some ex_work2 \<and>
   pdf_filename ex_work2 = Some ''work_2_thesis.pdf'' \<and>
   map_of (files ex_dangling) (path_join UPLOAD_FOLDER ''work_2_thesis.pdf'') = None \<and>
   WorkPDF_get ex_dangling 2 = (ex_dangling, Inl FileNotFoundError) \<and>
   http_status (snd (WorkPDF_get ex_dangling 2)) = 500"
  by code_simp

section \<open>The external representation of a stored work\<close>

lemma set_update_row: "set (update_row i new ws) \<subseteq> insert new (set ws)"
  by (induction ws) auto

lemma flush_pdf_filename: "pdf_filename (flush now old new) = pdf_filename new"
  by (auto simp: flush_def)

lemma commit_update_names:
  assumes "\<forall>x \<in> set (works st). pdf_filename x \<noteq> Some []"
    and "pdf_filename new \<noteq> Some []"
  shows "\<forall>x \<in> set (works (commit_update now st old new)). pdf_filename x \<noteq> Some []"
proof
  fix x
  assume "x \<in> set (works (commit_update now st old new))"
  then have "x \<in> insert (flush now old new) (set (works st))"
    using set_update_row [of "work_id old" "flush now old new" "works st"]
    by (auto simp: commit_update_def)
  then show "pdf_filename x \<noteq> Some []"
    using assms by (auto simp: flush_pdf_filename)
qed

lemma WorkList_post_names:
  assumes "\<forall>x \<in> set (works st). pdf_filename x \<noteq> Some []"
  shows "\<forall>x \<in> set (works (fst (WorkList_post now st data))). pdf_filename x \<noteq> Some []"
proof (cases data)
  case (PDict d)
  show ?thesis
    using WorkList_post_cases [of now st d] assms insert_row_defaults
    unfolding PDict by auto
qed (use assms in \<open>simp_all add: WorkList_post_def\<close>)

lemma WorkGDPR_delete_names:
  assumes "\<forall>x \<in> set (works st). pdf_filename x \<noteq> Some []"
  shows "\<forall>x \<in> set (works (fst (WorkGDPR_delete now st i))). pdf_filename x \<noteq> Some []"
proof (cases "find_work st i")
  case None
  then show ?thesis using assms by (simp add: WorkGDPR_delete_def)
next
  case (Some w)
  then have "w \<in> set (works st)"
    by (auto simp: find_work_def find_Some_iff)
  then have "pdf_filename (w\<lparr>author_name := ANONYMIZED, author_email := None\<rparr>) \<noteq> Some []"
    using assms by simp
  from commit_update_names [OF assms this] Some show ?thesis
    by (simp add: WorkGDPR_delete_def)
qed

lemma WorkApproval_post_names:
  assumes "\<forall>x \<in> set (works st). pdf_filename x \<noteq> Some []"
  shows "\<forall>x \<in> set (works (fst (WorkApproval_post now st i))). pdf_filename x \<noteq> Some []"
proof (cases "find_work st i")
  case None
  then show ?thesis using assms by (simp add: WorkApproval_post_def)
next
  case (Some w)
  then have "w \<in> set (works st)"
    by (auto simp: find_work_def find_Some_iff)
  then have "pdf_filename (w\<lparr>approved := True\<rparr>) \<noteq> Some []"
    using assms by simp
  from commit_update_names [OF assms this] Some show ?thesis
    by (simp add: WorkApproval_post_def)
qed

lemma WorkPDFUpload_post_names:
  assumes "\<forall>x \<in> set (works st). pdf_filename x \<noteq> Some []"
    and "\<forall>t. secure (''work_'' @ t) \<noteq> []"
  shows "\<forall>x \<in> set (works (fst (WorkPDFUpload_post secure now st i request_files))).
           pdf_filename x \<noteq> Some []"
proof (cases "find_work st i")
  case None
  then show ?thesis using assms(1) by (simp add: WorkPDFUpload_post_def)
next
  case w: (Some w)
  show ?thesis
  proof (cases "map_of request_files ''pdf''")
    case None
    then show ?thesis using assms(1) w by (simp add: WorkPDFUpload_post_def)
  next
    case f: (Some f)
    show ?thesis
    proof (cases "filename f \<noteq> [] \<and> allowed_file (filename f)")
      case False
      then show ?thesis using assms(1) w f by (auto simp: WorkPDFUpload_post_def)
    next
      case True
      let ?name = "secure (''work_'' @ str_nat i @ ''_'' @ filename f)"
      let ?st1 = "save_file (path_join UPLOAD_FOLDER ?name) (stream f) st"
      have r: "fst (WorkPDFUpload_post secure now st i request_files) =
          commit_update now ?st1 w (w\<lparr>pdf_filename := Some ?name\<rparr>)"
        using w f True by (simp add: WorkPDFUpload_post_def Let_def)
      have "?name \<noteq> []"
        using assms(2) by blast
      then have new: "pdf_filename (w\<lparr>pdf_filename := Some ?name\<rparr>) \<noteq> Some []"
        by simp
      have saved: "\<forall>x \<in> set (works ?st1). pdf_filename x \<noteq> Some []"
        using assms(1) by (simp add: save_file_def)
      show ?thesis
        unfolding r by (rule commit_update_names [OF saved new])
    qed
  qed
qed

text \<open>
  No handler stores an empty file name: a new row has none, and an upload stores the
  name \<^verbatim>\<open>secure_filename\<close> makes of a text that begins with \<^verbatim>\<open>work_\<close>, which is not
  empty.
\<close>

lemma reachable_names:
  assumes "reachable secure st" and "\<forall>t. secure (''work_'' @ t) \<noteq> []"
  shows "\<forall>x \<in> set (works st). pdf_filename x \<noteq> Some []"
  using assms(1)
proof induction
  case empty
  show ?case by simp
next
  case (create st now data)
  then show ?case by (intro WorkList_post_names)
next
  case (upload st now i request_files)
  then show ?case using assms(2) by (intro WorkPDFUpload_post_names)
next
  case (anonymize st now i)
  then show ?case by (intro WorkGDPR_delete_names)
next
  case (approve st now i)
  then show ?case by (intro WorkApproval_post_names)
next
  case (disk st fs)
  then show ?case by simp
qed

text \<open>
  C2. For every work of a store the handlers can produce, the dictionary \<^verbatim>\<open>to_dict\<close>
  builds has exactly the keys id, title, abstract, author_name, year, field, school,
  region, category, pdf_url, approved and created_at; author_email, gdpr_consent and
  pdf_filename are not among them; and pdf_url is the download path of the work if
  pdf_filename is not NULL, and None if it is NULL. (\<^verbatim>\<open>secure_filename\<close> keeps the
  letters of \<^verbatim>\<open>work\<close>, so the name it makes of a text that begins with \<^verbatim>\<open>work_\<close> is
  not empty.)
\<close>

theorem to_dict_of_stored_work:
  assumes "reachable secure st" and "\<forall>t. secure (''work_'' @ t) \<noteq> []"
    and "w \<in> set (works st)"
  shows "map fst (to_dict w) =
           [PStr ''id'', PStr ''title'', PStr ''abstract'', PStr ''author_name'', PStr ''year'',
            PStr ''field'', PStr ''school'', PStr ''region'', PStr ''category'',
            PStr ''pdf_url'', PStr ''approved'', PStr ''created_at''] \<and>
         PStr ''author_email'' \<notin> fst ` set (to_dict w) \<and>
         PStr ''gdpr_consent'' \<notin> fst ` set (to_dict w) \<and>
         PStr ''pdf_filename'' \<notin> fst ` set (to_dict w) \<and>
         map_of (to_dict w) (PStr ''pdf_url'') =
           Some (if pdf_filename w = None then PNone
                 else PStr (''/api/works/'' @ str_nat (work_id w) @ ''/pdf'')) \<and>
         (map_of (to_dict w) (PStr ''pdf_url'') = Some PNone \<longleftrightarrow> pdf_filename w = None)"
proof -
  have "pdf_filename w \<noteq> Some []"
    using reachable_names [OF assms(1,2)] assms(3) by blast
  then show ?thesis
    using to_dict_shape [of w] by auto
qed

text \<open>
  The theorem at the store with one created work, which has no file name and no
  pdf_url, and at the store after a PDF has been attached to it.
\<close>

theorem to_dict_of_stored_work_witness:
  "reachable (\<lambda>s. s) ex_created \<and> reachable (\<lambda>s. s) ex_attached \<and>
   map pdf_filename (works ex_created) = [None] \<and>
   map (\<lambda>w. map_of (to_dict w) (PStr ''pdf_url'')) (works ex_created) = [Some PNone] \<and>
   map pdf_filename (works ex_attached) = [Some ''work_1_thesis.pdf''] \<and>
   map (\<lambda>w. map_of (to_dict w) (PStr ''pdf_url'')) (works ex_attached) =
     [Some (PStr ''/api/works/1/pdf'')]"
proof -
  let ?c = "ex_work4\<lparr>work_id := 1, created_at := ex_t0, updated_at := ex_t0\<rparr>"
  let ?a = "?c\<lparr>pdf_filename := Some ''work_1_thesis.pdf'', updated_at := ex_t1\<rparr>"
  have rc: "reachable (\<lambda>s. s) ex_created"
    unfolding ex_created_def by (rule reachable.create [OF reachable.empty])
  have ra: "reachable (\<lambda>s. s) ex_attached"
    unfolding ex_attached_def by (rule reachable.upload [OF rc])
  have s: "\<forall>t. (\<lambda>s. s) (''work_'' @ t) \<noteq> []"
    by simp
  have wc: "works ex_created = [?c]"
    by code_simp
  have wa: "works ex_attached = [?a]"
    by code_simp
  have n: "str_nat 1 = ''1''"
    by code_simp
  have c: "map_of (to_dict ?c) (PStr ''pdf_url'') = Some PNone"
    using to_dict_of_stored_work [OF rc s, of ?c] wc by (simp add: ex_work4_def)
  have a: "map_of (to_dict ?a) (PStr ''pdf_url'') = Some (PStr ''/api/works/1/pdf'')"
    using to_dict_of_stored_work [OF ra s, of ?a] wa n by (simp add: ex_work4_def)
  show ?thesis
    using rc ra wc wa c a by (simp add: ex_work4_def)
qed

end
